theory Spec2Isabelle
  imports Complex_Main
begin

section \<open>Swap initiation (src/swap.ts): data model\<close>

text \<open>
  The TypeScript module \<^verbatim>\<open>swap.ts\<close> exports three functions: \<^verbatim>\<open>validateAmount\<close>,
  \<^verbatim>\<open>validateProps\<close> and \<^verbatim>\<open>swap\<close>. They are embedded below as HOL functions over
  records that follow the TypeScript types. Optional properties (\<^verbatim>\<open>btcAddress?\<close>,
  \<^verbatim>\<open>minDestinationConfirmations?\<close>) are \<open>option\<close> values, \<open>None\<close> standing for
  \<^verbatim>\<open>undefined\<close>. \<^verbatim>\<open>strategyId\<close> is an \<open>option\<close> as well, so that a caller that leaves
  it out can be told apart from one that passes the empty string.
\<close>

record asset =
  chain :: string
  atomicSwapAddress :: string

record swapAdditionalData =
  strategyId :: "string option"
  btcAddress :: "string option"

record swapProps =
  fromAsset :: asset
  toAsset :: asset
  sendAmount :: string
  receiveAmount :: string
  minDestinationConfirmations :: "int option"
  additionalData :: swapAdditionalData
  btcPublicKey :: string
  btcRecipientAddress :: string
  evmAddress :: string

text \<open>
  \<^verbatim>\<open>Result<T, string>\<close>: the object literals \<^verbatim>\<open>{ ok: true, val }\<close> and
  \<^verbatim>\<open>{ error, ok: false }\<close>. The source reads such an object in two ways: through its
  \<^verbatim>\<open>ok\<close> flag, and through the truthiness of its \<^verbatim>\<open>error\<close> property. The second
  reading is \<open>errorOf\<close>: the property is \<^verbatim>\<open>undefined\<close> on a success, and the empty
  string is falsy in JavaScript, so only a non-empty message counts as an error there.
  \<open>valOf\<close> reads the \<^verbatim>\<open>val\<close> property, which an error object does not carry.
\<close>

datatype 'a result = Ok 'a | Err string

fun errorOf :: "'a result \<Rightarrow> string option" where
  "errorOf (Ok v) = None"
| "errorOf (Err e) = (if e = [] then None else Some e)"

fun valOf :: "'a result \<Rightarrow> 'a option" where
  "valOf (Ok v) = Some v"
| "valOf (Err e) = None"

text \<open>Truthiness of an optional string: \<^verbatim>\<open>undefined\<close> and \<^verbatim>\<open>""\<close> are falsy.\<close>

fun truthy :: "string option \<Rightarrow> bool" where
  "truthy None = False"
| "truthy (Some s) = (s \<noteq> [])"

subsection \<open>The bignumber.js values the source inspects\<close>

text \<open>
  bignumber.js is a library the module imports. A \<^verbatim>\<open>BigNumber\<close> is NaN, an infinity or
  a finite decimal of arbitrary precision, here a rational. The three methods the
  source calls follow the library's documentation: \<^verbatim>\<open>isInteger\<close> is false for NaN
  and the infinities, and a comparison with NaN is false. The constructor, which
  parses the string, is a parameter of the model (\<open>bigNumber\<close> below).
\<close>

datatype bignumber = BN_NaN | BN_Infinity | BN_NegInfinity | BN_Finite rat

fun isInteger :: "bignumber \<Rightarrow> bool" where
  "isInteger (BN_Finite q) = (of_int \<lfloor>q\<rfloor> = q)"
| "isInteger _ = False"

fun isNaN :: "bignumber \<Rightarrow> bool" where
  "isNaN BN_NaN = True"
| "isNaN _ = False"

fun isLessThanOrEqualTo :: "bignumber \<Rightarrow> rat \<Rightarrow> bool" where
  "isLessThanOrEqualTo (BN_Finite q) n = (q \<le> n)"
| "isLessThanOrEqualTo BN_NegInfinity n = True"
| "isLessThanOrEqualTo BN_Infinity n = False"
| "isLessThanOrEqualTo BN_NaN n = False"

subsection \<open>The imported functions and collaborators\<close>

record additionalDataWithStrategyId =
  strategy_id :: "string option"
  bitcoin_optional_recipient :: "string option"

record orderRequest =
  additional_data :: additionalDataWithStrategyId
  destination_amount :: string
  destination_asset :: string
  destination_chain :: string
  fee :: string
  initiator_destination_address :: string
  initiator_source_address :: string
  min_destination_confirmations :: int
  nonce :: string
  secret_hash :: string
  source_amount :: string
  source_asset :: string
  source_chain :: string
  timelock :: nat

text \<open>A promise settles: it resolves to a value or rejects with a reason.\<close>

datatype 'a promise = Resolved 'a | Rejected string

text \<open>
  Everything \<^verbatim>\<open>swap.ts\<close> imports and calls is a field of the environment: the chain
  registry (\<^verbatim>\<open>isBitcoin\<close>, \<^verbatim>\<open>isMainnet\<close>, \<^verbatim>\<open>getTimeLock\<close>), the \<^verbatim>\<open>BigNumber\<close>
  constructor, the clock (\<^verbatim>\<open>Date.now()\<close>), the digest key and \<^verbatim>\<open>generateSecret\<close>
  (which yields the pair of the secret and its hash), the quote collaborator, the
  order-submission collaborator and the authentication context. \<open>createOrder\<close> takes
  what the source reads from the quote result's \<^verbatim>\<open>val\<close> property. The registry
  functions are total lookups, which is how the spec describes them; the two
  collaborators answer with a promise.
\<close>

record ('k, 'q, 'a) env =
  isBitcoin :: "string \<Rightarrow> bool"
  isMainnet :: "string \<Rightarrow> bool"
  getTimeLock :: "string \<Rightarrow> nat"
  bigNumber :: "string \<Rightarrow> bignumber"
  dateNow :: nat
  digestKey :: 'k
  generateSecret :: "'k \<Rightarrow> string \<Rightarrow> (string \<times> string) result"
  getAttestedQuote :: "orderRequest \<Rightarrow> 'q result promise"
  createOrder :: "'q option \<Rightarrow> 'a \<Rightarrow> string result promise"
  auth :: 'a

section \<open>validateAmount\<close>

definition validateAmount :: "('k, 'q, 'a) env \<Rightarrow> string \<Rightarrow> bignumber result" where
  "validateAmount e amount =
     (let amountBigInt = bigNumber e amount in
      if \<not> isInteger amountBigInt \<or> isNaN amountBigInt \<or> isLessThanOrEqualTo amountBigInt 0
      then Err (''Invalid amount '' @ amount)
      else Ok amountBigInt)"

section \<open>validateProps\<close>

text \<open>
  Line 152 of the source compares \<^verbatim>\<open>inputAmount < outputAmount\<close>, and both are the
  \<^verbatim>\<open>Result\<close> objects \<^verbatim>\<open>validateAmount\<close> returned, not the numbers in their \<^verbatim>\<open>val\<close>.
  JavaScript's \<^verbatim>\<open><\<close> converts an object operand to a primitive first: \<^verbatim>\<open>valueOf\<close> of a
  plain object returns the object, so \<^verbatim>\<open>toString\<close> is taken, and that is
  \<^verbatim>\<open>"[object Object]"\<close> for every object literal. The two strings are then compared
  code unit by code unit.
\<close>

definition toPrimitive :: "'a result \<Rightarrow> string" where
  "toPrimitive r = ''[object Object]''"

fun stringLess :: "string \<Rightarrow> string \<Rightarrow> bool" where
  "stringLess [] [] = False"
| "stringLess [] (y # ys) = True"
| "stringLess (x # xs) [] = False"
| "stringLess (x # xs) (y # ys) =
     (if (of_char x :: nat) < of_char y then True
      else if (of_char y :: nat) < of_char x then False
      else stringLess xs ys)"

definition jsLess :: "'a result \<Rightarrow> 'a result \<Rightarrow> bool" where
  "jsLess a b = stringLess (toPrimitive a) (toPrimitive b)"

definition validateProps :: "('k, 'q, 'a) env \<Rightarrow> swapProps \<Rightarrow> swapProps result" where
  "validateProps e props =
     (if \<not> truthy (strategyId (additionalData props)) then
        Err ''StrategyId is required''
      else if chain (fromAsset props) = chain (toAsset props) \<and>
              atomicSwapAddress (fromAsset props) = atomicSwapAddress (toAsset props) then
        Err ''Source and destination assets cannot be the same''
      else if (isMainnet e (chain (fromAsset props)) \<and> \<not> isMainnet e (chain (toAsset props))) \<or>
              (\<not> isMainnet e (chain (fromAsset props)) \<and> isMainnet e (chain (toAsset props))) then
        Err ''Both assets should be on the same network (either mainnet or testnet)''
      else
        let inputAmount = validateAmount e (sendAmount props) in
        case errorOf inputAmount of
          Some err \<Rightarrow> Err err
        | None \<Rightarrow>
            let outputAmount = validateAmount e (receiveAmount props) in
            (case errorOf outputAmount of
               Some err \<Rightarrow> Err err
             | None \<Rightarrow>
                 if jsLess inputAmount outputAmount then
                   Err ''Send amount should be greater than receive amount''
                 else if (isBitcoin e (chain (fromAsset props)) \<or> isBitcoin e (chain (toAsset props))) \<and>
                         \<not> truthy (btcAddress (additionalData props)) then
                   Err ''btcAddress in additionalData is required if source or destination chain is bitcoin, it is used as refund or redeem address.''
                 else Ok props))"

section \<open>swap\<close>

text \<open>\<^verbatim>\<open>Date.now().toString()\<close>: the decimal digits of a natural number.\<close>

function toString :: "nat \<Rightarrow> string" where
  "toString n =
     (if n < 10 then [char_of (48 + n)]
      else toString (n div 10) @ [char_of (48 + n mod 10)])"
  by pat_completeness auto
termination
  by (relation "measure (\<lambda>n. n)") auto

declare toString.simps [simp del]

text \<open>
  Modelled from the spec: \<^verbatim>\<open>trim0x\<close> is imported from the package @catalogfi/utils,
  which is not among the sources. The spec says of it that the secret hash \<open>is
  transmitted with any leading format prefix stripped (canonical hex form, no 0x)\<close>.
\<close>

definition trim0x :: "string \<Rightarrow> string" where
  "trim0x s = (if take 2 s = ''0x'' then drop 2 s else s)"

text \<open>
  Lines 69 to 72: \<^verbatim>\<open>(isBitcoin(asset.chain) && btcPublicKey) || evmAddress\<close>. The
  conjunction yields \<^verbatim>\<open>false\<close> or the public key; the disjunction falls back to the
  EVM address when that is falsy, which the empty public key is too.
\<close>

definition receiveAddress :: "('k, 'q, 'a) env \<Rightarrow> swapProps \<Rightarrow> string" where
  "receiveAddress e v =
     (if isBitcoin e (chain (toAsset v)) \<and> btcPublicKey v \<noteq> [] then btcPublicKey v
      else evmAddress v)"

definition sendAddress :: "('k, 'q, 'a) env \<Rightarrow> swapProps \<Rightarrow> string" where
  "sendAddress e v =
     (if isBitcoin e (chain (fromAsset v)) \<and> btcPublicKey v \<noteq> [] then btcPublicKey v
      else evmAddress v)"

text \<open>
  Lines 63 to 88, the order request. The spread
  \<^verbatim>\<open>...(btcRecipientAddress && { bitcoin_optional_recipient: btcRecipientAddress })\<close>
  adds the property only for a non-empty recipient address. The arguments after the
  validated props are the nonce, the secret hash and the timelock.
\<close>

definition orderRequestOf ::
  "('k, 'q, 'a) env \<Rightarrow> swapProps \<Rightarrow> string \<Rightarrow> string \<Rightarrow> nat \<Rightarrow> orderRequest" where
  "orderRequestOf e v nonceStr secretHash timelockVal =
     \<lparr> additional_data =
         \<lparr> strategy_id = strategyId (additionalData v),
           bitcoin_optional_recipient =
             (if btcRecipientAddress v = [] then None else Some (btcRecipientAddress v)) \<rparr>,
       destination_amount = receiveAmount v,
       destination_asset = atomicSwapAddress (toAsset v),
       destination_chain = chain (toAsset v),
       fee = ''1'',
       initiator_destination_address = receiveAddress e v,
       initiator_source_address = sendAddress e v,
       min_destination_confirmations =
         (case minDestinationConfirmations v of None \<Rightarrow> 0 | Some n \<Rightarrow> n),
       nonce = nonceStr,
       secret_hash = trim0x secretHash,
       source_amount = sendAmount v,
       source_asset = atomicSwapAddress (fromAsset v),
       source_chain = chain (fromAsset v),
       timelock = timelockVal \<rparr>"

text \<open>
  A run of \<^verbatim>\<open>swap\<close> yields how its promise settles and the calls it made to the two
  collaborators, in order, each with the payload it passed. A collaborator's promise
  that rejects makes the promise of \<^verbatim>\<open>swap\<close> reject: the source has no handler.
\<close>

datatype ('q, 'a) call = GetAttestedQuote orderRequest | CreateOrder "'q option" 'a

record swapValue =
  orderId :: "string option"
  secret :: string

definition swap ::
  "('k, 'q, 'a) env \<Rightarrow> swapProps \<Rightarrow> swapValue result promise \<times> ('q, 'a) call list" where
  "swap e props =
     (case validateProps e props of
        Err err \<Rightarrow> (Resolved (Err err), [])
      | Ok v \<Rightarrow>
          let timelockVal = getTimeLock e (chain (fromAsset v));
              nonceStr = toString (dateNow e)
          in
          (case generateSecret e (digestKey e) nonceStr of
             Err err \<Rightarrow> (Resolved (Err err), [])
           | Ok (secretVal, secretHash) \<Rightarrow>
               let request = orderRequestOf e v nonceStr secretHash timelockVal in
               (case getAttestedQuote e request of
                  Rejected reason \<Rightarrow> (Rejected reason, [GetAttestedQuote request])
                | Resolved quoteResult \<Rightarrow>
                    (case errorOf quoteResult of
                       Some err \<Rightarrow> (Resolved (Err err), [GetAttestedQuote request])
                     | None \<Rightarrow>
                         let attestedQuote = valOf quoteResult in
                         (case createOrder e attestedQuote (auth e) of
                            Rejected reason \<Rightarrow>
                              (Rejected reason,
                               [GetAttestedQuote request, CreateOrder attestedQuote (auth e)])
                          | Resolved orderIdResult \<Rightarrow>
                              (case errorOf orderIdResult of
                                 Some err \<Rightarrow>
                                   (Resolved (Err err),
                                    [GetAttestedQuote request, CreateOrder attestedQuote (auth e)])
                               | None \<Rightarrow>
                                   (Resolved (Ok \<lparr> orderId = valOf orderIdResult, secret = secretVal \<rparr>),
                                    [GetAttestedQuote request, CreateOrder attestedQuote (auth e)])))))))"

text \<open>The order requests among the calls of a run, in order.\<close>

fun requestOf :: "('q, 'a) call \<Rightarrow> orderRequest option" where
  "requestOf (GetAttestedQuote r) = Some r"
| "requestOf (CreateOrder q a) = None"

definition orderRequests :: "('q, 'a) call list \<Rightarrow> orderRequest list" where
  "orderRequests calls = List.map_filter requestOf calls"

section \<open>A concrete environment\<close>

text \<open>
  A constructor for the test environment that reads plain decimal notation (an
  optional minus sign, digits, an optional fraction), as bignumber.js does on such
  strings. Any other string it maps to NaN.
\<close>

definition isDigit :: "char \<Rightarrow> bool" where
  "isDigit c = (48 \<le> (of_char c :: nat) \<and> (of_char c :: nat) \<le> 57)"

definition digitsToNat :: "string \<Rightarrow> nat" where
  "digitsToNat s = foldl (\<lambda>acc c. 10 * acc + (of_char c - 48)) 0 s"

definition unsignedDecimal :: "string \<Rightarrow> rat option" where
  "unsignedDecimal s =
     (let ip = takeWhile (\<lambda>c. c \<noteq> CHR ''.'') s;
          rest = dropWhile (\<lambda>c. c \<noteq> CHR ''.'') s
      in if rest = [] then
           (if ip \<noteq> [] \<and> list_all isDigit ip then Some (of_nat (digitsToNat ip)) else None)
         else
           (let fp = tl rest in
            if list_all isDigit ip \<and> list_all isDigit fp \<and> (ip \<noteq> [] \<or> fp \<noteq> [])
            then Some (of_nat (digitsToNat ip) + of_nat (digitsToNat fp) / 10 ^ length fp)
            else None))"

definition decimalBigNumber :: "string \<Rightarrow> bignumber" where
  "decimalBigNumber s =
     (case s of
        [] \<Rightarrow> BN_NaN
      | c # t \<Rightarrow>
          if c = CHR ''-'' then
            (case unsignedDecimal t of Some q \<Rightarrow> BN_Finite (- q) | None \<Rightarrow> BN_NaN)
          else
            (case unsignedDecimal s of Some q \<Rightarrow> BN_Finite q | None \<Rightarrow> BN_NaN))"

definition testEnv :: "(string, string, string) env" where
  "testEnv =
     \<lparr> isBitcoin = (\<lambda>c. c = ''bitcoin'' \<or> c = ''bitcoin_testnet''),
       isMainnet = (\<lambda>c. c = ''bitcoin'' \<or> c = ''ethereum'' \<or> c = ''arbitrum''),
       getTimeLock = (\<lambda>c. if c = ''bitcoin'' \<or> c = ''bitcoin_testnet'' then 144 else 7200),
       bigNumber = decimalBigNumber,
       dateNow = 1700000000000,
       digestKey = ''digest-key'',
       generateSecret = (\<lambda>k n. Ok (''0x5ec4e7'', ''0xa1b2c3'')),
       getAttestedQuote = (\<lambda>r. Resolved (Ok ''attested-quote'')),
       createOrder = (\<lambda>q a. Resolved (Ok ''order-1'')),
       auth = ''auth-context'' \<rparr>"

text \<open>An EVM to EVM swap of 100 for 90, and a swap from Bitcoin.\<close>

definition evmProps :: swapProps where
  "evmProps =
     \<lparr> fromAsset = \<lparr> chain = ''ethereum'', atomicSwapAddress = ''0xA'' \<rparr>,
       toAsset = \<lparr> chain = ''arbitrum'', atomicSwapAddress = ''0xB'' \<rparr>,
       sendAmount = ''100'',
       receiveAmount = ''90'',
       minDestinationConfirmations = None,
       additionalData = \<lparr> strategyId = Some ''s1'', btcAddress = None \<rparr>,
       btcPublicKey = ''02abc'',
       btcRecipientAddress = [],
       evmAddress = ''0xE'' \<rparr>"

definition btcProps :: swapProps where
  "btcProps =
     evmProps \<lparr> fromAsset := \<lparr> chain = ''bitcoin'', atomicSwapAddress = ''primary'' \<rparr>,
                additionalData := \<lparr> strategyId = Some ''s1'', btcAddress = Some ''bc1q'' \<rparr> \<rparr>"

text \<open>The same swaps with 90 sent for 100 received.\<close>

definition lowSendProps :: swapProps where
  "lowSendProps = evmProps \<lparr> sendAmount := ''90'', receiveAmount := ''100'' \<rparr>"

definition lowSendBtcProps :: swapProps where
  "lowSendBtcProps =
     btcProps \<lparr> sendAmount := ''90'', receiveAmount := ''100'',
                additionalData := \<lparr> strategyId = Some ''s1'', btcAddress = None \<rparr> \<rparr>"

text \<open>
  The swap from Bitcoin with an empty public key, with an empty \<^verbatim>\<open>btcAddress\<close> and
  with none.
\<close>

definition emptyKeyProps :: swapProps where
  "emptyKeyProps = btcProps \<lparr> btcPublicKey := [] \<rparr>"

definition emptyBtcAddressProps :: swapProps where
  "emptyBtcAddressProps =
     btcProps \<lparr> additionalData := \<lparr> strategyId = Some ''s1'', btcAddress = Some [] \<rparr> \<rparr>"

definition noBtcAddressProps :: swapProps where
  "noBtcAddressProps =
     btcProps \<lparr> additionalData := \<lparr> strategyId = Some ''s1'', btcAddress = None \<rparr> \<rparr>"

text \<open>
  Environments whose quote collaborator answers every request with an error: one
  with a message, one with the empty message.
\<close>

definition quoteErrorEnv :: "(string, string, string) env" where
  "quoteErrorEnv = testEnv \<lparr> getAttestedQuote := (\<lambda>r. Resolved (Err ''quote failed'')) \<rparr>"

definition emptyErrorEnv :: "(string, string, string) env" where
  "emptyErrorEnv = testEnv \<lparr> getAttestedQuote := (\<lambda>r. Resolved (Err [])) \<rparr>"

text \<open>An environment in which both collaborators answer with the empty error.\<close>

definition emptyErrorsEnv :: "(string, string, string) env" where
  "emptyErrorsEnv =
     testEnv \<lparr> getAttestedQuote := (\<lambda>r. Resolved (Err [])),
               createOrder := (\<lambda>q a. Resolved (Err [])) \<rparr>"

text \<open>A second derivation that yields the hash of the test environment's and another secret.\<close>

definition otherSecret :: "string \<Rightarrow> string \<Rightarrow> (string \<times> string) result" where
  "otherSecret k n = Ok (''0xffffff'', ''0xa1b2c3'')"

section \<open>Auxiliary facts\<close>

lemmas fixtureDefs = testEnv_def evmProps_def btcProps_def lowSendProps_def lowSendBtcProps_def
  emptyKeyProps_def emptyBtcAddressProps_def noBtcAddressProps_def quoteErrorEnv_def
  emptyErrorEnv_def emptyErrorsEnv_def otherSecret_def

lemmas parseDefs = decimalBigNumber_def unsignedDecimal_def isDigit_def digitsToNat_def

lemmas evalDefs = validateAmount_def validateProps_def jsLess_def toPrimitive_def swap_def
  orderRequestOf_def sendAddress_def receiveAddress_def trim0x_def orderRequests_def
  fixtureDefs parseDefs

subsection \<open>The comparison of the two results never holds\<close>

lemma stringLess_irrefl: "\<not> stringLess s s"
  by (induction s) simp_all

lemma jsLess_False: "\<not> jsLess a b"
  by (simp add: jsLess_def toPrimitive_def stringLess_irrefl)

subsection \<open>validateAmount\<close>

lemma validateAmount_cases:
  "validateAmount e amount = Ok (bigNumber e amount) \<or>
   validateAmount e amount = Err (''Invalid amount '' @ amount)"
  by (simp add: validateAmount_def Let_def)

text \<open>The message of \<^verbatim>\<open>validateAmount\<close> is never empty, so its truthiness test is exact.\<close>

lemma errorOf_validateAmount_Some:
  "errorOf (validateAmount e amount) = Some err \<longleftrightarrow> validateAmount e amount = Err err"
  by (auto simp add: validateAmount_def Let_def)

lemma validateAmount_generateSecret_update:
  "validateAmount (e \<lparr> generateSecret := g \<rparr>) amount = validateAmount e amount"
  by (simp add: validateAmount_def)

subsection \<open>validateProps as a chain of checks\<close>

text \<open>
  The checks of \<^verbatim>\<open>validateProps\<close> in the order of the source, with the comparison of
  line 152 left out: by \<open>jsLess_False\<close> it never fails.
\<close>

lemma validateProps_amounts:
  "validateProps e props =
     (if \<not> truthy (strategyId (additionalData props)) then
        Err ''StrategyId is required''
      else if chain (fromAsset props) = chain (toAsset props) \<and>
              atomicSwapAddress (fromAsset props) = atomicSwapAddress (toAsset props) then
        Err ''Source and destination assets cannot be the same''
      else if isMainnet e (chain (fromAsset props)) \<noteq> isMainnet e (chain (toAsset props)) then
        Err ''Both assets should be on the same network (either mainnet or testnet)''
      else
        case validateAmount e (sendAmount props) of
          Err err \<Rightarrow> Err err
        | Ok a \<Rightarrow>
            (case validateAmount e (receiveAmount props) of
               Err err \<Rightarrow> Err err
             | Ok b \<Rightarrow>
                 if (isBitcoin e (chain (fromAsset props)) \<or> isBitcoin e (chain (toAsset props))) \<and>
                    \<not> truthy (btcAddress (additionalData props)) then
                   Err ''btcAddress in additionalData is required if source or destination chain is bitcoin, it is used as refund or redeem address.''
                 else Ok props))"
proof -
  have s: "validateAmount e (sendAmount props) = Ok (bigNumber e (sendAmount props)) \<or>
           validateAmount e (sendAmount props) = Err (''Invalid amount '' @ sendAmount props)"
    by (rule validateAmount_cases)
  have r: "validateAmount e (receiveAmount props) = Ok (bigNumber e (receiveAmount props)) \<or>
           validateAmount e (receiveAmount props) = Err (''Invalid amount '' @ receiveAmount props)"
    by (rule validateAmount_cases)
  from s r show ?thesis
    unfolding validateProps_def Let_def
    by (auto simp add: jsLess_False)
qed

lemma validateProps_Ok_same: "validateProps e props = Ok v \<Longrightarrow> v = props"
  by (simp add: validateProps_amounts split: if_splits result.splits)

text \<open>No props make \<^verbatim>\<open>validateProps\<close> return the message of line 154.\<close>

lemma validateProps_never_send_error:
  "validateProps e props \<noteq> Err ''Send amount should be greater than receive amount''"
  using validateAmount_cases [of e "sendAmount props"] validateAmount_cases [of e "receiveAmount props"]
  by (auto simp add: validateProps_amounts)

text \<open>
  The first five checks in their order: each error is returned when the checks before
  it pass, whatever the later fields are.
\<close>

lemma validateProps_order:
  "\<not> truthy (strategyId (additionalData props)) \<Longrightarrow>
     validateProps e props = Err ''StrategyId is required''"
  "truthy (strategyId (additionalData props)) \<Longrightarrow>
   chain (fromAsset props) = chain (toAsset props) \<and>
     atomicSwapAddress (fromAsset props) = atomicSwapAddress (toAsset props) \<Longrightarrow>
     validateProps e props = Err ''Source and destination assets cannot be the same''"
  "truthy (strategyId (additionalData props)) \<Longrightarrow>
   \<not> (chain (fromAsset props) = chain (toAsset props) \<and>
        atomicSwapAddress (fromAsset props) = atomicSwapAddress (toAsset props)) \<Longrightarrow>
   isMainnet e (chain (fromAsset props)) \<noteq> isMainnet e (chain (toAsset props)) \<Longrightarrow>
     validateProps e props =
       Err ''Both assets should be on the same network (either mainnet or testnet)''"
  "truthy (strategyId (additionalData props)) \<Longrightarrow>
   \<not> (chain (fromAsset props) = chain (toAsset props) \<and>
        atomicSwapAddress (fromAsset props) = atomicSwapAddress (toAsset props)) \<Longrightarrow>
   isMainnet e (chain (fromAsset props)) = isMainnet e (chain (toAsset props)) \<Longrightarrow>
   validateAmount e (sendAmount props) = Err err \<Longrightarrow>
     validateProps e props = Err err"
  "truthy (strategyId (additionalData props)) \<Longrightarrow>
   \<not> (chain (fromAsset props) = chain (toAsset props) \<and>
        atomicSwapAddress (fromAsset props) = atomicSwapAddress (toAsset props)) \<Longrightarrow>
   isMainnet e (chain (fromAsset props)) = isMainnet e (chain (toAsset props)) \<Longrightarrow>
   validateAmount e (sendAmount props) = Ok a \<Longrightarrow>
   validateAmount e (receiveAmount props) = Err err \<Longrightarrow>
     validateProps e props = Err err"
  by (auto simp add: validateProps_amounts)

lemma validateProps_generateSecret_update:
  "validateProps (e \<lparr> generateSecret := g \<rparr>) props = validateProps e props"
  by (simp add: validateProps_amounts validateAmount_generateSecret_update cong: result.case_cong)

subsection \<open>swap\<close>

text \<open>A failed validation settles the promise at once: no collaborator is called.\<close>

lemma swap_validation_error:
  "validateProps e props = Err err \<Longrightarrow> swap e props = (Resolved (Err err), [])"
  by (simp add: swap_def)

lemma orderRequestOf_generateSecret_update:
  "orderRequestOf (e \<lparr> generateSecret := g \<rparr>) v n h t = orderRequestOf e v n h t"
  by (simp add: orderRequestOf_def receiveAddress_def sendAddress_def)

text \<open>
  Once validation and the derivation of the secret succeed, exactly one order request
  is built and passed on.
\<close>

lemma swap_orderRequests:
  assumes "validateProps e props = Ok v"
    and "generateSecret e (digestKey e) (toString (dateNow e)) = Ok (s, h)"
  shows "orderRequests (snd (swap e props)) =
           [orderRequestOf e props (toString (dateNow e)) h (getTimeLock e (chain (fromAsset props)))]"
proof -
  from assms(1) have "v = props"
    by (rule validateProps_Ok_same)
  with assms show ?thesis
    by (simp add: swap_def orderRequests_def Let_def split: promise.splits option.splits)
qed

lemma agree_cases:
  assumes "map_result snd r1 = map_result snd r2"
  shows "(\<exists>s1 s2 h. r1 = Ok (s1, h) \<and> r2 = Ok (s2, h)) \<or> (\<exists>x. r1 = Err x \<and> r2 = Err x)"
  using assms by (cases r1; cases r2) auto

lemma swap_secret_independent:
  assumes "map_result snd (g (digestKey e) (toString (dateNow e))) =
           map_result snd (generateSecret e (digestKey e) (toString (dateNow e)))"
  shows "snd (swap (e \<lparr> generateSecret := g \<rparr>) props) = snd (swap e props) \<and>
         map_promise (map_result orderId) (fst (swap (e \<lparr> generateSecret := g \<rparr>) props)) =
         map_promise (map_result orderId) (fst (swap e props))"
  using agree_cases [OF assms]
  by (auto simp add: swap_def validateProps_generateSecret_update orderRequestOf_generateSecret_update
      Let_def split: result.splits promise.splits option.splits)

text \<open>The truthiness test of the source lets a success and the empty error through.\<close>

lemma errorOf_None: "errorOf r = None \<longleftrightarrow> (\<exists>x. r = Ok x) \<or> r = Err []"
  by (cases r) simp_all

lemma swap_success:
  assumes "fst (swap e props) = Resolved (Ok val)"
  shows "\<exists>h qr oidr.
           generateSecret e (digestKey e) (toString (dateNow e)) = Ok (secret val, h) \<and>
           getAttestedQuote e
             (orderRequestOf e props (toString (dateNow e)) h (getTimeLock e (chain (fromAsset props))))
             = Resolved qr \<and> errorOf qr = None \<and>
           createOrder e (valOf qr) (auth e) = Resolved oidr \<and> errorOf oidr = None \<and>
           orderId val = valOf oidr \<and>
           snd (swap e props) =
             [GetAttestedQuote
                (orderRequestOf e props (toString (dateNow e)) h (getTimeLock e (chain (fromAsset props)))),
              CreateOrder (valOf qr) (auth e)]"
proof (cases "validateProps e props")
  case (Err x)
  with assms show ?thesis by (simp add: swap_def)
next
  case (Ok v)
  then have "v = props"
    by (rule validateProps_Ok_same)
  with Ok assms show ?thesis
    by (auto simp add: swap_def Let_def split: result.splits promise.splits option.splits)
qed

subsection \<open>The concrete environment\<close>

lemma validateProps_evmProps: "validateProps testEnv evmProps = Ok evmProps"
  by (simp add: evalDefs)

lemma validateProps_btcProps: "validateProps testEnv btcProps = Ok btcProps"
  by (simp add: evalDefs)

lemma validateProps_evmProps_confirmations:
  "validateProps testEnv (evmProps \<lparr> minDestinationConfirmations := Some 3 \<rparr>) =
     Ok (evmProps \<lparr> minDestinationConfirmations := Some 3 \<rparr>)"
  by (simp add: evalDefs)

lemma validateProps_quoteErrorEnv: "validateProps quoteErrorEnv evmProps = Ok evmProps"
  by (simp add: evalDefs)

lemma generateSecret_testEnv:
  "generateSecret testEnv (digestKey testEnv) (toString (dateNow testEnv)) =
     Ok (''0x5ec4e7'', ''0xa1b2c3'')"
  by (simp add: testEnv_def)

lemma lowSendProps_amounts:
  "validateAmount testEnv (sendAmount lowSendProps) = Ok (BN_Finite 90) \<and>
   validateAmount testEnv (receiveAmount lowSendProps) = Ok (BN_Finite 100)"
  by (simp add: evalDefs)

lemma lowSendBtcProps_amounts:
  "validateAmount testEnv (sendAmount lowSendBtcProps) = Ok (BN_Finite 90) \<and>
   validateAmount testEnv (receiveAmount lowSendBtcProps) = Ok (BN_Finite 100)"
  by (simp add: evalDefs)

section \<open>The claims\<close>

subsection \<open>C1: the comparison of the send and the receive amount\<close>

text \<open>
  C1. For props whose two amounts pass \<^verbatim>\<open>validateAmount\<close>, the specification makes
  \<^verbatim>\<open>validateProps\<close> fail with \<open>Send amount should be greater than receive amount\<close>
  exactly when the send amount is numerically less than the receive amount. The source
  does not do so: line 152 compares the two \<^verbatim>\<open>Result\<close> objects and not the numbers in
  them, a comparison that is false for every pair (\<open>jsLess_False\<close>), and the error of
  line 154 is never returned (\<open>validateProps_never_send_error\<close>). With 90 sent for 100
  received, both valid amounts (\<open>lowSendProps_amounts\<close>), the props are accepted.
\<close>

theorem validateProps_lowSendProps:
  "validateProps testEnv lowSendProps = Ok lowSendProps"
  by (simp add: evalDefs)

subsection \<open>C2: the secret is withheld from the collaborators\<close>

text \<open>
  C2, as the source has it. No payload passed to the quote collaborator or to the
  order-submission collaborator depends on the derived secret. First, replacing
  \<^verbatim>\<open>generateSecret\<close> by any derivation \<open>g\<close> that yields the same hashes and the same
  errors, whatever secrets it yields, changes no call of the run and nothing of how the
  promise settles but the \<^verbatim>\<open>secret\<close> field of a success value (the outcomes agree once
  that field is dropped, so no error carries the secret). Second, the order request
  holds the hash with a leading \<^verbatim>\<open>0x\<close> removed. Third, a success value holds the derived
  secret and the \<^verbatim>\<open>val\<close> of the order result, and it is returned only after both
  collaborators were called, in this order, and each resolved to a success or to an
  error whose message is empty: after an error with a message no secret is returned.
\<close>

theorem swap_withholds_secret:
  "((\<forall>k n. map_result snd (g k n) = map_result snd (generateSecret e k n)) \<longrightarrow>
      snd (swap (e \<lparr> generateSecret := g \<rparr>) props) = snd (swap e props) \<and>
      map_promise (map_result orderId) (fst (swap (e \<lparr> generateSecret := g \<rparr>) props)) =
      map_promise (map_result orderId) (fst (swap e props))) \<and>
   (\<forall>v s h. validateProps e props = Ok v \<and>
            generateSecret e (digestKey e) (toString (dateNow e)) = Ok (s, h) \<longrightarrow>
      map secret_hash (orderRequests (snd (swap e props))) =
        [if take 2 h = ''0x'' then drop 2 h else h]) \<and>
   (\<forall>val. fst (swap e props) = Resolved (Ok val) \<longrightarrow>
      (\<exists>h qr oidr.
         generateSecret e (digestKey e) (toString (dateNow e)) = Ok (secret val, h) \<and>
         getAttestedQuote e
           (orderRequestOf e props (toString (dateNow e)) h (getTimeLock e (chain (fromAsset props))))
           = Resolved qr \<and> ((\<exists>q. qr = Ok q) \<or> qr = Err []) \<and>
         createOrder e (valOf qr) (auth e) = Resolved oidr \<and>
         ((\<exists>oid. oidr = Ok oid) \<or> oidr = Err []) \<and>
         orderId val = valOf oidr \<and>
         snd (swap e props) =
           [GetAttestedQuote
              (orderRequestOf e props (toString (dateNow e)) h (getTimeLock e (chain (fromAsset props)))),
            CreateOrder (valOf qr) (auth e)]))"
proof (intro conjI impI allI)
  assume "\<forall>k n. map_result snd (g k n) = map_result snd (generateSecret e k n)"
  then have a: "map_result snd (g (digestKey e) (toString (dateNow e))) =
           map_result snd (generateSecret e (digestKey e) (toString (dateNow e)))"
    by simp
  from swap_secret_independent [where g = g and e = e, OF a]
  show "snd (swap (e \<lparr> generateSecret := g \<rparr>) props) = snd (swap e props)" by simp
  from swap_secret_independent [where g = g and e = e, OF a]
  show "map_promise (map_result orderId) (fst (swap (e \<lparr> generateSecret := g \<rparr>) props)) =
      map_promise (map_result orderId) (fst (swap e props))" by simp
next
  fix v s h
  assume "validateProps e props = Ok v \<and>
            generateSecret e (digestKey e) (toString (dateNow e)) = Ok (s, h)"
  then have 1: "validateProps e props = Ok v"
    and 2: "generateSecret e (digestKey e) (toString (dateNow e)) = Ok (s, h)" by simp_all
  show "map secret_hash (orderRequests (snd (swap e props))) =
        [if take 2 h = ''0x'' then drop 2 h else h]"
    by (simp add: swap_orderRequests [OF 1 2] orderRequestOf_def trim0x_def)
next
  fix val
  assume "fst (swap e props) = Resolved (Ok val)"
  from swap_success [OF this]
  obtain h qr oidr where
    g: "generateSecret e (digestKey e) (toString (dateNow e)) = Ok (secret val, h)"
    and q: "getAttestedQuote e
           (orderRequestOf e props (toString (dateNow e)) h (getTimeLock e (chain (fromAsset props))))
           = Resolved qr"
    and qe: "errorOf qr = None"
    and c: "createOrder e (valOf qr) (auth e) = Resolved oidr"
    and ce: "errorOf oidr = None"
    and oid: "orderId val = valOf oidr"
    and calls: "snd (swap e props) =
           [GetAttestedQuote
              (orderRequestOf e props (toString (dateNow e)) h (getTimeLock e (chain (fromAsset props)))),
            CreateOrder (valOf qr) (auth e)]"
    by blast
  from qe have qe': "(\<exists>q. qr = Ok q) \<or> qr = Err []"
    by (simp add: errorOf_None)
  from ce have ce': "(\<exists>oid. oidr = Ok oid) \<or> oidr = Err []"
    by (simp add: errorOf_None)
  from g q qe' c ce' oid calls
  show "\<exists>h qr oidr.
         generateSecret e (digestKey e) (toString (dateNow e)) = Ok (secret val, h) \<and>
         getAttestedQuote e
           (orderRequestOf e props (toString (dateNow e)) h (getTimeLock e (chain (fromAsset props))))
           = Resolved qr \<and> ((\<exists>q. qr = Ok q) \<or> qr = Err []) \<and>
         createOrder e (valOf qr) (auth e) = Resolved oidr \<and>
         ((\<exists>oid. oidr = Ok oid) \<or> oidr = Err []) \<and>
         orderId val = valOf oidr \<and>
         snd (swap e props) =
           [GetAttestedQuote
              (orderRequestOf e props (toString (dateNow e)) h (getTimeLock e (chain (fromAsset props)))),
            CreateOrder (valOf qr) (auth e)]"
    by blast
qed

theorem swap_withholds_secret_witness:
  "snd (swap (testEnv \<lparr> generateSecret := otherSecret \<rparr>) evmProps) = snd (swap testEnv evmProps) \<and>
   map secret_hash (orderRequests (snd (swap testEnv evmProps))) = [''a1b2c3''] \<and>
   fst (swap testEnv evmProps) = Resolved (Ok \<lparr> orderId = Some ''order-1'', secret = ''0x5ec4e7'' \<rparr>) \<and>
   length (snd (swap testEnv evmProps)) = 2"
proof -
  note inst = swap_withholds_secret [of otherSecret testEnv evmProps]
  have agree: "\<forall>k n. map_result snd (otherSecret k n) = map_result snd (generateSecret testEnv k n)"
    by (simp add: otherSecret_def testEnv_def)
  have ok: "fst (swap testEnv evmProps) =
              Resolved (Ok \<lparr> orderId = Some ''order-1'', secret = ''0x5ec4e7'' \<rparr>)"
    by (simp add: evalDefs)
  from inst agree
  have 1: "snd (swap (testEnv \<lparr> generateSecret := otherSecret \<rparr>) evmProps) = snd (swap testEnv evmProps)"
    by blast
  from inst validateProps_evmProps generateSecret_testEnv
  have "map secret_hash (orderRequests (snd (swap testEnv evmProps))) =
          [if take 2 ''0xa1b2c3'' = ''0x'' then drop 2 ''0xa1b2c3'' else ''0xa1b2c3'']"
    by blast
  then have 2: "map secret_hash (orderRequests (snd (swap testEnv evmProps))) = [''a1b2c3'']"
    by simp
  from inst ok
  have "\<exists>r q a. snd (swap testEnv evmProps) = [GetAttestedQuote r, CreateOrder q a]"
    by blast
  then have 3: "length (snd (swap testEnv evmProps)) = 2"
    by auto
  from 1 2 ok 3 show ?thesis by simp
qed

text \<open>
  With the empty message the claim fails: the props are valid, the quote collaborator
  answers the request of the run with an error and the order-submission collaborator
  answers its call with an error, so neither call succeeds, and yet \<^verbatim>\<open>swap\<close> resolves
  to a success that holds the secret.
\<close>

theorem swap_empty_errors_counterexample:
  "validateProps emptyErrorsEnv evmProps = Ok evmProps \<and>
   map (getAttestedQuote emptyErrorsEnv) (orderRequests (snd (swap emptyErrorsEnv evmProps))) =
     [Resolved (Err [])] \<and>
   CreateOrder None ''auth-context'' \<in> set (snd (swap emptyErrorsEnv evmProps)) \<and>
   createOrder emptyErrorsEnv None ''auth-context'' = Resolved (Err []) \<and>
   fst (swap emptyErrorsEnv evmProps) =
     Resolved (Ok \<lparr> orderId = None, secret = ''0x5ec4e7'' \<rparr>)"
  by (simp add: evalDefs)

subsection \<open>C3: an error of the quote collaborator\<close>

text \<open>
  C3, as the source has it. When validation and the derivation of the secret succeed
  and the quote collaborator resolves to an error whose message is not empty, \<^verbatim>\<open>swap\<close>
  resolves to that error, and its only call is the one to the quote collaborator:
  \<^verbatim>\<open>createOrder\<close> is not invoked. The source tests the truthiness of \<^verbatim>\<open>result.error\<close>
  (line 92), so the message must not be empty.
\<close>

theorem swap_quote_error:
  assumes "validateProps e props = Ok v"
    and "generateSecret e (digestKey e) (toString (dateNow e)) = Ok (s, h)"
    and "getAttestedQuote e
           (orderRequestOf e props (toString (dateNow e)) h (getTimeLock e (chain (fromAsset props))))
         = Resolved (Err err)"
    and "err \<noteq> []"
  shows "fst (swap e props) = Resolved (Err err) \<and>
         snd (swap e props) =
           [GetAttestedQuote
              (orderRequestOf e props (toString (dateNow e)) h (getTimeLock e (chain (fromAsset props))))] \<and>
         (\<forall>q a. CreateOrder q a \<notin> set (snd (swap e props)))"
proof -
  from assms(1) have "v = props"
    by (rule validateProps_Ok_same)
  with assms show ?thesis
    by (simp add: swap_def Let_def)
qed

theorem swap_quote_error_witness:
  "fst (swap quoteErrorEnv evmProps) = Resolved (Err ''quote failed'') \<and>
   length (snd (swap quoteErrorEnv evmProps)) = 1 \<and>
   CreateOrder None ''auth-context'' \<notin> set (snd (swap quoteErrorEnv evmProps))"
proof -
  have g: "generateSecret quoteErrorEnv (digestKey quoteErrorEnv) (toString (dateNow quoteErrorEnv))
             = Ok (''0x5ec4e7'', ''0xa1b2c3'')"
    by (simp add: fixtureDefs)
  have q: "getAttestedQuote quoteErrorEnv
             (orderRequestOf quoteErrorEnv evmProps (toString (dateNow quoteErrorEnv)) ''0xa1b2c3''
                (getTimeLock quoteErrorEnv (chain (fromAsset evmProps))))
           = Resolved (Err ''quote failed'')"
    by (simp add: fixtureDefs)
  have n: "''quote failed'' \<noteq> []" by simp
  from swap_quote_error [OF validateProps_quoteErrorEnv g q n] show ?thesis by simp
qed

text \<open>
  With the empty message the claim fails: the props are valid, the quote collaborator
  answers the request of the run with an error, and yet \<^verbatim>\<open>swap\<close> resolves to a success
  and \<^verbatim>\<open>createOrder\<close> is invoked, with the \<^verbatim>\<open>val\<close> an error result does not carry.
\<close>

theorem swap_empty_quote_error_counterexample:
  "validateProps emptyErrorEnv evmProps = Ok evmProps \<and>
   map (getAttestedQuote emptyErrorEnv) (orderRequests (snd (swap emptyErrorEnv evmProps))) =
     [Resolved (Err [])] \<and>
   fst (swap emptyErrorEnv evmProps) =
     Resolved (Ok \<lparr> orderId = Some ''order-1'', secret = ''0x5ec4e7'' \<rparr>) \<and>
   CreateOrder None ''auth-context'' \<in> set (snd (swap emptyErrorEnv evmProps))"
  by (simp add: evalDefs)

subsection \<open>C4: the order of the checks\<close>

text \<open>
  C4. The specification lists the checks in the order strategy id, identical assets,
  network class, send amount, receive amount, send against receive, Bitcoin address,
  the first failing check giving the error. The source has them in this order
  (\<open>validateProps_order\<close> for the first five, all before any call by
  \<open>swap_validation_error\<close>), but its sixth check never fails (see C1). For a swap from
  Bitcoin with 90 sent for 100 received, both valid amounts (\<open>lowSendBtcProps_amounts\<close>),
  and no \<^verbatim>\<open>btcAddress\<close>, the first failing check of the specification is the comparison;
  the source returns the error of the check after it.
\<close>

theorem validateProps_lowSendBtcProps:
  "validateProps testEnv lowSendBtcProps =
     Err ''btcAddress in additionalData is required if source or destination chain is bitcoin, it is used as refund or redeem address.''"
  by (simp add: evalDefs)

subsection \<open>C5: validateAmount\<close>

text \<open>
  C5. \<^verbatim>\<open>validateAmount\<close> fails with \<open>Invalid amount\<close> followed by the string when the
  string does not parse as a number (the constructor yields NaN), when the value is
  not an integer, and when it is less than or equal to zero. When the string parses to
  a positive integer, the result is a success that holds exactly this value.
\<close>

theorem validateAmount_contract:
  "(bigNumber e amount = BN_NaN \<or> \<not> isInteger (bigNumber e amount) \<or>
    isNaN (bigNumber e amount) \<or> isLessThanOrEqualTo (bigNumber e amount) 0
      \<longrightarrow> validateAmount e amount = Err (''Invalid amount '' @ amount)) \<and>
   (\<forall>n. 0 < n \<and> bigNumber e amount = BN_Finite (of_int n)
      \<longrightarrow> validateAmount e amount = Ok (BN_Finite (of_int n)))"
  by (auto simp add: validateAmount_def Let_def)

theorem validateAmount_contract_witness:
  "validateAmount testEnv ''abc'' = Err ''Invalid amount abc'' \<and>
   validateAmount testEnv ''1.5'' = Err ''Invalid amount 1.5'' \<and>
   validateAmount testEnv ''0'' = Err ''Invalid amount 0'' \<and>
   validateAmount testEnv ''-5'' = Err ''Invalid amount -5'' \<and>
   validateAmount testEnv ''100'' = Ok (BN_Finite 100)"
proof -
  have nan: "bigNumber testEnv ''abc'' = BN_NaN"
    by (simp add: testEnv_def parseDefs)
  have frac: "\<not> isInteger (bigNumber testEnv ''1.5'')"
  proof -
    have "\<lfloor>3 / 2 :: rat\<rfloor> = 1" by linarith
    moreover have "bigNumber testEnv ''1.5'' = BN_Finite (3 / 2)"
      by (simp add: testEnv_def parseDefs)
    ultimately show ?thesis by simp
  qed
  have zero: "isLessThanOrEqualTo (bigNumber testEnv ''0'') 0"
    by (simp add: testEnv_def parseDefs)
  have neg: "isLessThanOrEqualTo (bigNumber testEnv ''-5'') 0"
    by (simp add: testEnv_def parseDefs)
  have pos: "(0::int) < 100 \<and> bigNumber testEnv ''100'' = BN_Finite (of_int 100)"
    by (simp add: testEnv_def parseDefs)
  from validateAmount_contract [of testEnv "''abc''"] nan
  have 1: "validateAmount testEnv ''abc'' = Err ''Invalid amount abc''" by simp
  from validateAmount_contract [of testEnv "''1.5''"] frac
  have 2: "validateAmount testEnv ''1.5'' = Err ''Invalid amount 1.5''" by simp
  from validateAmount_contract [of testEnv "''0''"] zero
  have 3: "validateAmount testEnv ''0'' = Err ''Invalid amount 0''" by simp
  from validateAmount_contract [of testEnv "''-5''"] neg
  have 4: "validateAmount testEnv ''-5'' = Err ''Invalid amount -5''" by simp
  from validateAmount_contract [of testEnv "''100''"] pos
  have 5: "validateAmount testEnv ''100'' = Ok (BN_Finite 100)" by auto
  from 1 2 3 4 5 show ?thesis by simp
qed

subsection \<open>C6: the addresses of the two legs\<close>

text \<open>
  C6, as the source has it. In the order request of valid props, the source address is
  the Bitcoin public key when the chain of \<^verbatim>\<open>fromAsset\<close> is a Bitcoin chain and the key
  is not empty, and the EVM address otherwise; the destination address is resolved in
  the same way from the chain of \<^verbatim>\<open>toAsset\<close>, independently of the source leg.
\<close>

theorem swap_addresses:
  assumes "validateProps e props = Ok v"
    and "generateSecret e (digestKey e) (toString (dateNow e)) = Ok (s, h)"
  shows "map initiator_source_address (orderRequests (snd (swap e props))) =
           [if isBitcoin e (chain (fromAsset props)) \<and> btcPublicKey props \<noteq> []
            then btcPublicKey props else evmAddress props] \<and>
         map initiator_destination_address (orderRequests (snd (swap e props))) =
           [if isBitcoin e (chain (toAsset props)) \<and> btcPublicKey props \<noteq> []
            then btcPublicKey props else evmAddress props]"
  by (simp add: swap_orderRequests [OF assms] orderRequestOf_def sendAddress_def receiveAddress_def)

theorem swap_addresses_witness:
  "map initiator_source_address (orderRequests (snd (swap testEnv btcProps))) = [''02abc''] \<and>
   map initiator_destination_address (orderRequests (snd (swap testEnv btcProps))) = [''0xE'']"
proof -
  have a: "isBitcoin testEnv (chain (fromAsset btcProps))"
    and b: "\<not> isBitcoin testEnv (chain (toAsset btcProps))"
    and c: "btcPublicKey btcProps = ''02abc''" and d: "evmAddress btcProps = ''0xE''"
    by (simp_all add: fixtureDefs)
  from swap_addresses [OF validateProps_btcProps generateSecret_testEnv] a b c d
  show ?thesis by simp
qed

text \<open>
  With an empty public key the claim fails: the props are valid and the source chain is
  Bitcoin, but the source address of the order request is the EVM address.
\<close>

theorem swap_empty_public_key_counterexample:
  "validateProps testEnv emptyKeyProps = Ok emptyKeyProps \<and>
   isBitcoin testEnv (chain (fromAsset emptyKeyProps)) \<and>
   btcPublicKey emptyKeyProps = [] \<and>
   map initiator_source_address (orderRequests (snd (swap testEnv emptyKeyProps))) = [''0xE'']"
  by (simp add: evalDefs)

subsection \<open>C7: the Bitcoin address\<close>

text \<open>
  C7, as the source has it. For props that pass the earlier checks (a strategy id,
  distinct assets, one network class, two valid amounts, the send amount not below the
  receive amount), \<^verbatim>\<open>validateProps\<close> fails with the \<^verbatim>\<open>btcAddress\<close> error exactly when one
  of the two chains is a Bitcoin chain and \<^verbatim>\<open>additionalData.btcAddress\<close> is absent or
  the empty string; when neither chain is a Bitcoin chain, the props are accepted
  whatever the \<^verbatim>\<open>btcAddress\<close>.
\<close>

theorem validateProps_btcAddress:
  assumes "truthy (strategyId (additionalData props))"
    and "\<not> (chain (fromAsset props) = chain (toAsset props) \<and>
            atomicSwapAddress (fromAsset props) = atomicSwapAddress (toAsset props))"
    and "isMainnet e (chain (fromAsset props)) = isMainnet e (chain (toAsset props))"
    and "validateAmount e (sendAmount props) = Ok (BN_Finite a)"
    and "validateAmount e (receiveAmount props) = Ok (BN_Finite b)"
    and "b \<le> a"
  shows "(validateProps e props =
            Err ''btcAddress in additionalData is required if source or destination chain is bitcoin, it is used as refund or redeem address.''
          \<longleftrightarrow> (isBitcoin e (chain (fromAsset props)) \<or> isBitcoin e (chain (toAsset props))) \<and>
              (btcAddress (additionalData props) = None \<or>
               btcAddress (additionalData props) = Some [])) \<and>
         (\<not> isBitcoin e (chain (fromAsset props)) \<and> \<not> isBitcoin e (chain (toAsset props))
          \<longrightarrow> validateProps e props = Ok props)"
proof -
  have t: "truthy (btcAddress (additionalData props)) \<longleftrightarrow>
             \<not> (btcAddress (additionalData props) = None \<or> btcAddress (additionalData props) = Some [])"
    by (cases "btcAddress (additionalData props)") simp_all
  from assms show ?thesis
    by (auto simp add: validateProps_amounts t)
qed

theorem validateProps_btcAddress_witness:
  "validateProps testEnv noBtcAddressProps =
     Err ''btcAddress in additionalData is required if source or destination chain is bitcoin, it is used as refund or redeem address.'' \<and>
   validateProps testEnv evmProps = Ok evmProps"
proof -
  have s: "validateAmount testEnv ''100'' = Ok (BN_Finite 100)"
    and r: "validateAmount testEnv ''90'' = Ok (BN_Finite 90)"
    by (simp_all add: evalDefs)
  have le: "(90::rat) \<le> 100" by simp
  have 1: "validateProps testEnv noBtcAddressProps =
     Err ''btcAddress in additionalData is required if source or destination chain is bitcoin, it is used as refund or redeem address.''"
    using validateProps_btcAddress [of noBtcAddressProps testEnv 100 90] s r le
    by (simp add: fixtureDefs)
  have 2: "validateProps testEnv evmProps = Ok evmProps"
    using validateProps_btcAddress [of evmProps testEnv 100 90] s r le
    by (simp add: fixtureDefs)
  from 1 2 show ?thesis by simp
qed

text \<open>
  With a \<^verbatim>\<open>btcAddress\<close> that is present and empty the claim fails: the field is not
  absent, and the props are rejected with the \<^verbatim>\<open>btcAddress\<close> error.
\<close>

theorem validateProps_empty_btcAddress_counterexample:
  "btcAddress (additionalData emptyBtcAddressProps) = Some [] \<and>
   validateProps testEnv emptyBtcAddressProps =
     Err ''btcAddress in additionalData is required if source or destination chain is bitcoin, it is used as refund or redeem address.''"
  by (simp add: evalDefs)

subsection \<open>C8: validation returns the props as given\<close>

text \<open>
  C8. When \<^verbatim>\<open>validateProps\<close> succeeds, the value it returns is the props it was given,
  every field unchanged.
\<close>

theorem validateProps_returns_props:
  "validateProps e props = Ok v \<Longrightarrow> v = props"
  by (simp add: validateProps_amounts split: if_splits result.splits)

theorem validateProps_returns_props_witness:
  "validateProps testEnv evmProps = Ok evmProps"
proof -
  have "\<exists>v. validateProps testEnv evmProps = Ok v"
    using validateProps_evmProps by simp
  then obtain v where h: "validateProps testEnv evmProps = Ok v" ..
  from validateProps_returns_props [OF h] h show ?thesis by simp
qed

subsection \<open>C9: the default of min_destination_confirmations\<close>

text \<open>
  C9. For valid props, the order request built by \<^verbatim>\<open>swap\<close> has
  \<^verbatim>\<open>min_destination_confirmations\<close> 0 when \<^verbatim>\<open>minDestinationConfirmations\<close> is absent, and
  the given value when it is present.
\<close>

theorem swap_min_destination_confirmations:
  assumes "validateProps e props = Ok v"
    and "generateSecret e (digestKey e) (toString (dateNow e)) = Ok (s, h)"
  shows "map min_destination_confirmations (orderRequests (snd (swap e props))) =
           [case minDestinationConfirmations props of None \<Rightarrow> 0 | Some n \<Rightarrow> n]"
  by (simp add: swap_orderRequests [OF assms] orderRequestOf_def)

theorem swap_min_destination_confirmations_witness:
  "map min_destination_confirmations (orderRequests (snd (swap testEnv evmProps))) = [0] \<and>
   map min_destination_confirmations
     (orderRequests (snd (swap testEnv (evmProps \<lparr> minDestinationConfirmations := Some 3 \<rparr>)))) = [3]"
proof -
  have a: "minDestinationConfirmations evmProps = None"
    by (simp add: evmProps_def)
  from swap_min_destination_confirmations [OF validateProps_evmProps generateSecret_testEnv] a
  have 1: "map min_destination_confirmations (orderRequests (snd (swap testEnv evmProps))) = [0]"
    by simp
  from swap_min_destination_confirmations [OF validateProps_evmProps_confirmations generateSecret_testEnv]
  have 2: "map min_destination_confirmations
     (orderRequests (snd (swap testEnv (evmProps \<lparr> minDestinationConfirmations := Some 3 \<rparr>)))) = [3]"
    by simp
  from 1 2 show ?thesis by simp
qed

subsection \<open>C10: an empty strategy id\<close>

text \<open>
  C10. \<^verbatim>\<open>validateProps\<close> fails with \<open>StrategyId is required\<close> when
  \<^verbatim>\<open>additionalData.strategyId\<close> is the empty string, as it does when the field is absent.
\<close>

theorem validateProps_empty_strategyId:
  "strategyId (additionalData props) = Some [] \<or> strategyId (additionalData props) = None
     \<Longrightarrow> validateProps e props = Err ''StrategyId is required''"
  by (auto simp add: validateProps_def)

theorem validateProps_empty_strategyId_witness:
  "validateProps testEnv (evmProps \<lparr> additionalData := \<lparr> strategyId = Some [], btcAddress = None \<rparr> \<rparr>)
     = Err ''StrategyId is required'' \<and>
   validateProps testEnv (evmProps \<lparr> additionalData := \<lparr> strategyId = None, btcAddress = None \<rparr> \<rparr>)
     = Err ''StrategyId is required''"
proof -
  have a: "strategyId (additionalData (evmProps \<lparr> additionalData := \<lparr> strategyId = Some [], btcAddress = None \<rparr> \<rparr>)) = Some []"
    by simp
  have b: "strategyId (additionalData (evmProps \<lparr> additionalData := \<lparr> strategyId = None, btcAddress = None \<rparr> \<rparr>)) = None"
    by simp
  from validateProps_empty_strategyId [OF disjI1, OF a, of testEnv]
    validateProps_empty_strategyId [OF disjI2, OF b, of testEnv]
  show ?thesis by simp
qed

end
